theory Spec2Isabelle
  imports Main
begin

section \<open>Python values\<close>

text \<open>
  The client of \<^verbatim>\<open>document360_api.py\<close> handles values it gets from \<^verbatim>\<open>response.json()\<close>
  and from its callers. Python is dynamically typed, so a decoded body, a field of it, an
  argument and the stored \<^verbatim>\<open>self.folder_id\<close> can each be any of the values below.
  A float is kept as mantissa and exponent (or one of the special values): the program
  only ever tests a number for being zero. A dict is the list of its items, each key
  once, looked up with \<open>map_of\<close>.
\<close>

datatype pyfloat = Finite int int | Infinite bool | NaN

datatype pyval =
    PNone
  | PBool bool
  | PInt int
  | PFloat pyfloat
  | PStr string
  | PList "pyval list"
  | PDict "(string \<times> pyval) list"

text \<open>Truth value testing, as \<^verbatim>\<open>if x:\<close>, \<^verbatim>\<open>not x\<close> and \<^verbatim>\<open>x or y\<close> apply it.\<close>

fun truthy :: "pyval \<Rightarrow> bool" where
  "truthy PNone = False"
| "truthy (PBool b) = b"
| "truthy (PInt i) = (i \<noteq> 0)"
| "truthy (PFloat (Finite m e)) = (m \<noteq> 0)"
| "truthy (PFloat (Infinite s)) = True"
| "truthy (PFloat NaN) = True"
| "truthy (PStr s) = (s \<noteq> [])"
| "truthy (PList xs) = (xs \<noteq> [])"
| "truthy (PDict kvs) = (kvs \<noteq> [])"

text \<open>\<^verbatim>\<open>a or b\<close>: the first operand when it is truthy, the second otherwise.\<close>

definition py_or :: "pyval \<Rightarrow> pyval \<Rightarrow> pyval" where
  "py_or a b = (if truthy a then a else b)"

fun type_name :: "pyval \<Rightarrow> string" where
  "type_name PNone = ''NoneType''"
| "type_name (PBool b) = ''bool''"
| "type_name (PInt i) = ''int''"
| "type_name (PFloat f) = ''float''"
| "type_name (PStr s) = ''str''"
| "type_name (PList xs) = ''list''"
| "type_name (PDict kvs) = ''dict''"

text \<open>
  Exceptions. Every \<^verbatim>\<open>except\<close> clause of the program asks one question only: is the
  exception a \<^verbatim>\<open>requests.exceptions.RequestException\<close> (any subclass) or some other
  \<^verbatim>\<open>Exception\<close>. The string of \<open>RequestException\<close> and \<open>OtherException\<close> is
  \<^verbatim>\<open>str(e)\<close>; \<open>AttributeError\<close> and \<open>TypeError\<close> carry the name of the type of the
  offending object. Exceptions outside \<^verbatim>\<open>Exception\<close> (a keyboard interrupt) are not
  modelled.
\<close>

datatype exn =
    RequestException string
  | AttributeError string
  | TypeError string
  | OtherException string

fun is_request_exception :: "exn \<Rightarrow> bool" where
  "is_request_exception (RequestException m) = True"
| "is_request_exception e = False"

text \<open>
  \<^verbatim>\<open>d.get(key, default)\<close> on a dict, and \<^verbatim>\<open>obj.get(key, default)\<close> on any object:
  only a dict has the method.
\<close>

definition dict_get :: "(string \<times> pyval) list \<Rightarrow> string \<Rightarrow> pyval \<Rightarrow> pyval" where
  "dict_get kvs k d = (case map_of kvs k of Some v \<Rightarrow> v | None \<Rightarrow> d)"

fun py_get :: "pyval \<Rightarrow> string \<Rightarrow> pyval \<Rightarrow> exn + pyval" where
  "py_get (PDict kvs) k d = Inr (dict_get kvs k d)"
| "py_get v k d = Inl (AttributeError (type_name v))"

text \<open>\<^verbatim>\<open>len(obj)\<close> and the items a \<^verbatim>\<open>for\<close> loop visits.\<close>

fun py_len :: "pyval \<Rightarrow> exn + int" where
  "py_len (PStr s) = Inr (int (length s))"
| "py_len (PList xs) = Inr (int (length xs))"
| "py_len (PDict kvs) = Inr (int (length kvs))"
| "py_len v = Inl (TypeError (type_name v))"

fun py_iter :: "pyval \<Rightarrow> exn + pyval list" where
  "py_iter (PStr s) = Inr (map (\<lambda>c. PStr [c]) s)"
| "py_iter (PList xs) = Inr xs"
| "py_iter (PDict kvs) = Inr (map (\<lambda>kv. PStr (fst kv)) kvs)"
| "py_iter v = Inl (TypeError (type_name v))"

section \<open>Requests, responses and the console\<close>

datatype http_method = GET | POST | PUT | DELETE

text \<open>
  The URL is \<^verbatim>\<open>self.base_url\<close> or \<^verbatim>\<open>f"{self.base_url}/{target_folder_id}"\<close>; the
  model keeps the target instead of formatting it.
\<close>

datatype url = BaseUrl | FolderUrl pyval

record request =
  req_method :: http_method
  req_url :: url
  req_headers :: "(string \<times> pyval) list"
  req_body :: "(string \<times> pyval) list option"

text \<open>
  What the program reads of a \<^verbatim>\<open>requests.Response\<close>: \<^verbatim>\<open>status_code\<close>,
  \<^verbatim>\<open>content\<close>, \<^verbatim>\<open>text\<close>, and the outcome of \<^verbatim>\<open>json()\<close>, a decoded value or
  the exception it raises (a \<open>RequestException\<close> in requests 2.27 and later, a
  \<^verbatim>\<open>ValueError\<close> before).
\<close>

record response =
  status_code :: int
  content :: string
  text_of :: string
  json :: "exn + pyval"

text \<open>The network: \<^verbatim>\<open>requests.get/post/put/delete\<close> returns a response or raises.\<close>

type_synonym transport = "request \<Rightarrow> exn + response"

text \<open>
  Everything a call does besides returning and assigning \<^verbatim>\<open>self.folder_id\<close>, in order:
  the lines it prints, the HTTP call it issues, each call of \<^verbatim>\<open>response.json()\<close>.
  A printed line is its fixed text (without the emoji, the rulers, the time stamp and
  whatever follows the formatted value) and the value or the exception the f-string
  formats; \<open>LogRequest\<close> stands for the lines of \<^verbatim>\<open>log_request\<close>. Printing itself is
  taken never to fail.
\<close>

datatype event =
    Print string
  | PrintVal string pyval
  | PrintText string string
  | PrintExn string exn
  | LogRequest http_method url "(string \<times> pyval) list" "(string \<times> pyval) list option"
  | HttpCall request
  | JsonDecode

record client =
  api_token :: string
  user_id :: pyval
  headers :: "(string \<times> pyval) list"
  folder_id :: pyval

text \<open>What a call leaves behind: the value returned, the client, the events.\<close>

record outcome =
  ret :: pyval
  after :: client
  trace :: "event list"

text \<open>\<^verbatim>\<open>__init__\<close>\<close>

definition init :: "string \<Rightarrow> pyval \<Rightarrow> client" where
  "init token uid =
     \<lparr> api_token = token,
       user_id = uid,
       headers = [(''api_token'', PStr token), (''Content-Type'', PStr ''application/json'')]
                 @ (if truthy uid then [(''user_id'', uid)] else []),
       folder_id = PNone \<rparr>"

text \<open>\<^verbatim>\<open>log_request\<close>: the body is printed only \<^verbatim>\<open>if body:\<close>.\<close>

definition log_request ::
  "http_method \<Rightarrow> url \<Rightarrow> (string \<times> pyval) list \<Rightarrow> (string \<times> pyval) list option \<Rightarrow> event list" where
  "log_request m u h b =
     [LogRequest m u h (case b of None \<Rightarrow> None | Some kvs \<Rightarrow> if kvs \<noteq> [] then Some kvs else None)]"

text \<open>
  \<^verbatim>\<open>log_response\<close>: it calls \<^verbatim>\<open>response.json()\<close> itself, and prints the raw text
  when that raises.
\<close>

definition log_response :: "response \<Rightarrow> event list" where
  "log_response r =
     [Print ''RESPONSE LOG'',
      PrintVal ''Status Code: '' (PInt (status_code r)),
      Print (if status_code r < 400 then ''Status: SUCCESS'' else ''Status: ERROR''),
      JsonDecode,
      (case json r of
         Inr v \<Rightarrow> PrintVal ''Response Body: '' v
       | Inl e \<Rightarrow> PrintText ''Response Body (Raw): '' (text_of r))]
     @ (if status_code r \<ge> 400 then [PrintText ''ERROR MESSAGE: '' (text_of r)] else [])"

section \<open>The try blocks\<close>

text \<open>
  A \<^verbatim>\<open>try\<close> body either returns or raises; either way the client and the events so
  far stay as they are.
\<close>

datatype attempt =
    Returned pyval client "event list"
  | Raised exn client "event list"

text \<open>The client and the events of an attempt, and events that happened before those of
  an attempt.\<close>

fun client_of :: "attempt \<Rightarrow> client" where
  "client_of (Returned v c t) = c"
| "client_of (Raised e c t) = c"

fun events_of :: "attempt \<Rightarrow> event list" where
  "events_of (Returned v c t) = t"
| "events_of (Raised e c t) = t"

fun emit :: "event list \<Rightarrow> attempt \<Rightarrow> attempt" where
  "emit t (Returned v c t') = Returned v c (t @ t')"
| "emit t (Raised e c t') = Raised e c (t @ t')"

text \<open>
  The two \<^verbatim>\<open>except\<close> clauses every operation ends with:
  \<^verbatim>\<open>except requests.exceptions.RequestException as e\<close> and \<^verbatim>\<open>except Exception as e\<close>.
  Each prints its line and returns the operation's failure value (\<^verbatim>\<open>None\<close>, or
  \<^verbatim>\<open>False\<close> for delete).
\<close>

definition except_line :: "exn \<Rightarrow> event" where
  "except_line e =
     (if is_request_exception e then PrintExn ''REQUEST ERROR: '' e
      else PrintExn ''UNEXPECTED ERROR: '' e)"

fun catch :: "event list \<Rightarrow> pyval \<Rightarrow> attempt \<Rightarrow> outcome" where
  "catch banner fail (Returned v c t) = \<lparr> ret = v, after = c, trace = banner @ t \<rparr>"
| "catch banner fail (Raised e c t) = \<lparr> ret = fail, after = c, trace = banner @ t @ [except_line e] \<rparr>"

text \<open>
  The first lines of each \<^verbatim>\<open>try\<close> body: \<^verbatim>\<open>self.log_request(...)\<close>, the call of
  \<^verbatim>\<open>requests\<close>, \<^verbatim>\<open>self.log_response(response)\<close>, then the handling of the response.
\<close>

definition perform :: "transport \<Rightarrow> request \<Rightarrow> (response \<Rightarrow> attempt) \<Rightarrow> client \<Rightarrow> attempt" where
  "perform send req handle c =
     (let t0 = log_request (req_method req) (req_url req) (req_headers req) (req_body req)
               @ [HttpCall req]
      in case send req of
           Inl e \<Rightarrow> Raised e c t0
         | Inr r \<Rightarrow> emit (t0 @ log_response r) (handle r))"

text \<open>
  The loop over the API's error list, the same in create, rename and delete:
  \<^verbatim>\<open>for error in errors: print(f"  Error: {error.get('description', 'Unknown error')}")\<close>.
  It returns the lines printed and the exception that stopped it, if any.
\<close>

fun show_errors :: "pyval list \<Rightarrow> event list \<times> exn option" where
  "show_errors [] = ([], None)"
| "show_errors (PDict ed # rest) =
     (case show_errors rest of
        (t, e) \<Rightarrow> (PrintVal ''  Error: '' (dict_get ed ''description'' (PStr ''Unknown error'')) # t, e))"
| "show_errors (v # rest) = ([], Some (AttributeError (type_name v)))"

definition report_errors :: "(string \<times> pyval) list \<Rightarrow> event list \<times> exn option" where
  "report_errors rd =
     (case py_iter (dict_get rd ''errors'' (PList [])) of
        Inl e \<Rightarrow> ([], Some e)
      | Inr items \<Rightarrow> show_errors items)"

section \<open>get_all_folders\<close>

text \<open>The loop of lines 83 to 88; \<^verbatim>\<open>folder.get\<close> raises on anything but a dict.\<close>

fun show_folders :: "int \<Rightarrow> pyval list \<Rightarrow> event list \<times> exn option" where
  "show_folders i [] = ([], None)"
| "show_folders i (PDict fd # rest) =
     (case show_folders (i + 1) rest of
        (t, e) \<Rightarrow>
          ([PrintVal ''Folder '' (PInt i),
            PrintVal ''  Name: '' (dict_get fd ''title'' (PStr ''N/A'')),
            PrintVal ''  ID: '' (dict_get fd ''id'' (PStr ''N/A'')),
            PrintVal ''  Updated: '' (dict_get fd ''updated_on'' (PStr ''N/A'')),
            PrintVal ''  Items Count: '' (dict_get fd ''items_count'' (PInt 0))] @ t, e))"
| "show_folders i (v # rest) =
     ([PrintVal ''Folder '' (PInt i)], Some (AttributeError (type_name v)))"

text \<open>Lines 77 to 93.\<close>

definition list_handle :: "response \<Rightarrow> client \<Rightarrow> attempt" where
  "list_handle r c =
     (if status_code r = 200 then
        (case json r of
           Inl e \<Rightarrow> Raised e c [JsonDecode]
         | Inr response_data \<Rightarrow>
         (case py_get response_data ''data'' (PList []) of
           Inl e \<Rightarrow> Raised e c [JsonDecode]
         | Inr folders \<Rightarrow>
         (case py_len folders of
           Inl e \<Rightarrow> Raised e c [JsonDecode]
         | Inr n \<Rightarrow>
         (case py_iter folders of
           Inl e \<Rightarrow> Raised e c [JsonDecode, PrintVal ''SUCCESS: Found '' (PInt n)]
         | Inr items \<Rightarrow>
         (case show_folders 1 items of
           (t, Some e) \<Rightarrow>
             Raised e c ([JsonDecode, PrintVal ''SUCCESS: Found '' (PInt n)] @ t)
         | (t, None) \<Rightarrow>
             Returned folders c ([JsonDecode, PrintVal ''SUCCESS: Found '' (PInt n)] @ t))))))
      else Returned PNone c [Print ''ERROR: Failed to fetch folders''])"

definition list_request :: "client \<Rightarrow> request" where
  "list_request c =
     \<lparr> req_method = GET, req_url = BaseUrl, req_headers = headers c, req_body = None \<rparr>"

definition get_all_folders :: "transport \<Rightarrow> client \<Rightarrow> outcome" where
  "get_all_folders send c =
     catch [Print ''TASK #1: FETCHING ALL DRIVE FOLDERS''] PNone
       (perform send (list_request c) (\<lambda>r. list_handle r c) c)"

section \<open>create_folder\<close>

text \<open>Lines 140 to 148, from \<^verbatim>\<open>folder_data\<close> on.\<close>

fun create_success :: "pyval \<Rightarrow> client \<Rightarrow> attempt" where
  "create_success (PDict fd) c =
     Returned (PDict fd) (c\<lparr>folder_id := dict_get fd ''id'' PNone\<rparr>)
       [Print ''SUCCESS: Folder created successfully!'',
        PrintVal ''  Folder Name: '' (dict_get fd ''title'' (PStr ''N/A'')),
        PrintVal ''  Folder ID: '' (dict_get fd ''id'' PNone),
        PrintVal ''  Updated At: '' (dict_get fd ''updated_on'' (PStr ''N/A''))]"
| "create_success v c = Raised (AttributeError (type_name v)) c []"

text \<open>Lines 139 to 154, from \<^verbatim>\<open>response_data\<close> on.\<close>

fun create_body :: "pyval \<Rightarrow> client \<Rightarrow> attempt" where
  "create_body (PDict rd) c =
     (if truthy (dict_get rd ''success'' (PBool False)) then
        create_success (dict_get rd ''data'' (PDict [])) c
      else
        (case report_errors rd of
           (t, Some e) \<Rightarrow> Raised e c (Print ''ERROR: API returned success=false'' # t)
         | (t, None) \<Rightarrow> Returned PNone c (Print ''ERROR: API returned success=false'' # t)))"
| "create_body v c = Raised (AttributeError (type_name v)) c []"

text \<open>Lines 135 to 157.\<close>

definition create_handle :: "response \<Rightarrow> client \<Rightarrow> attempt" where
  "create_handle r c =
     (if status_code r = 200 \<or> status_code r = 201 then
        (case json r of
           Inl e \<Rightarrow> Raised e c [JsonDecode]
         | Inr response_data \<Rightarrow> emit [JsonDecode] (create_body response_data c))
      else Returned PNone c [Print ''ERROR: Failed to create folder''])"

definition create_request :: "pyval \<Rightarrow> pyval \<Rightarrow> client \<Rightarrow> request" where
  "create_request folder_name parent_folder_id c =
     \<lparr> req_method = POST, req_url = BaseUrl, req_headers = headers c,
       req_body = Some ([(''title'', folder_name), (''user_id'', user_id c)]
                        @ (if truthy parent_folder_id
                           then [(''parent_folder_id'', parent_folder_id)] else [])) \<rparr>"

definition create_folder :: "transport \<Rightarrow> pyval \<Rightarrow> pyval \<Rightarrow> client \<Rightarrow> outcome" where
  "create_folder send folder_name parent_folder_id c =
     catch [Print ''TASK #2: CREATING A NEW FOLDER''] PNone
       (perform send (create_request folder_name parent_folder_id c) (\<lambda>r. create_handle r c) c)"

section \<open>update_folder_name\<close>

text \<open>Lines 208 to 215, from \<^verbatim>\<open>folder_data\<close> on; the first line is printed before
  \<^verbatim>\<open>folder_data.get\<close> is first called.\<close>

fun update_success :: "pyval \<Rightarrow> pyval \<Rightarrow> client \<Rightarrow> attempt" where
  "update_success (PDict fd) target c =
     Returned (PDict fd) c
       [Print ''SUCCESS: Folder name updated successfully!'',
        PrintVal ''  New Folder Name: '' (dict_get fd ''title'' (PStr ''N/A'')),
        PrintVal ''  Folder ID: '' target,
        PrintVal ''  Updated At: '' (dict_get fd ''updated_on'' (PStr ''N/A''))]"
| "update_success v target c =
     Raised (AttributeError (type_name v)) c [Print ''SUCCESS: Folder name updated successfully!'']"

text \<open>Lines 207 to 221, from \<^verbatim>\<open>response_data\<close> on.\<close>

fun update_body :: "pyval \<Rightarrow> pyval \<Rightarrow> client \<Rightarrow> attempt" where
  "update_body (PDict rd) target c =
     (if truthy (dict_get rd ''success'' (PBool False)) then
        update_success (dict_get rd ''data'' (PDict [])) target c
      else
        (case report_errors rd of
           (t, Some e) \<Rightarrow> Raised e c (Print ''ERROR: API returned success=false'' # t)
         | (t, None) \<Rightarrow> Returned PNone c (Print ''ERROR: API returned success=false'' # t)))"
| "update_body v target c = Raised (AttributeError (type_name v)) c []"

text \<open>Lines 203 to 224.\<close>

definition update_handle :: "response \<Rightarrow> pyval \<Rightarrow> client \<Rightarrow> attempt" where
  "update_handle r target c =
     (if status_code r = 200 then
        (case json r of
           Inl e \<Rightarrow> Raised e c [JsonDecode]
         | Inr response_data \<Rightarrow> emit [JsonDecode] (update_body response_data target c))
      else Returned PNone c [Print ''ERROR: Failed to update folder name''])"

definition update_request :: "pyval \<Rightarrow> pyval \<Rightarrow> client \<Rightarrow> request" where
  "update_request new_name target c =
     \<lparr> req_method = PUT, req_url = FolderUrl target, req_headers = headers c,
       req_body = Some [(''title'', new_name), (''user_id'', user_id c)] \<rparr>"

definition update_folder_name :: "transport \<Rightarrow> pyval \<Rightarrow> pyval \<Rightarrow> client \<Rightarrow> outcome" where
  "update_folder_name send new_name fid c =
     (let target_folder_id = py_or fid (folder_id c) in
      if \<not> truthy target_folder_id then
        \<lparr> ret = PNone, after = c,
          trace = [Print ''TASK #3: UPDATING FOLDER NAME'',
                   Print ''ERROR: No folder ID available. Create a folder first.''] \<rparr>
      else
        catch [Print ''TASK #3: UPDATING FOLDER NAME''] PNone
          (perform send (update_request new_name target_folder_id c)
             (\<lambda>r. update_handle r target_folder_id c) c))"

section \<open>delete_folder\<close>

text \<open>
  Lines 272 to 279: the value of \<^verbatim>\<open>success\<close>. The body is decoded only when
  \<^verbatim>\<open>response.content\<close> is not empty, and the bare \<^verbatim>\<open>except:\<close> turns every
  exception into \<^verbatim>\<open>success = True\<close>.
\<close>

definition delete_success :: "response \<Rightarrow> pyval \<times> event list" where
  "delete_success r =
     (if content r \<noteq> [] then
        (case json r of
           Inl e \<Rightarrow> (PBool True, [JsonDecode])
         | Inr response_data \<Rightarrow>
             (case py_get response_data ''success'' (PBool True) of
                Inl e \<Rightarrow> (PBool True, [JsonDecode])
              | Inr success \<Rightarrow> (success, [JsonDecode])))
      else (PBool True, []))"

text \<open>
  Lines 291 to 298: the error list is decoded and printed again, and whatever this
  raises is dropped by \<^verbatim>\<open>except: pass\<close>.
\<close>

definition delete_report :: "response \<Rightarrow> event list" where
  "delete_report r =
     (if content r \<noteq> [] then
        JsonDecode #
        (case json r of
           Inl e \<Rightarrow> []
         | Inr response_data \<Rightarrow>
             (case response_data of
                PDict rd \<Rightarrow> fst (report_errors rd)
              | _ \<Rightarrow> []))
      else [])"

text \<open>Lines 270 to 302.\<close>

definition delete_handle :: "response \<Rightarrow> pyval \<Rightarrow> client \<Rightarrow> attempt" where
  "delete_handle r target c =
     (if status_code r = 200 \<or> status_code r = 204 then
        (case delete_success r of
           (success, t) \<Rightarrow>
             if truthy success then
               Returned (PBool True) (c\<lparr>folder_id := PNone\<rparr>)
                 (t @ [Print ''SUCCESS: Folder deleted successfully!'',
                       PrintVal ''  Deleted Folder ID: '' target])
             else
               Returned (PBool False) c
                 (t @ [Print ''ERROR: API returned success=false''] @ delete_report r))
      else Returned (PBool False) c [Print ''ERROR: Failed to delete folder''])"

definition delete_request :: "pyval \<Rightarrow> client \<Rightarrow> request" where
  "delete_request target c =
     \<lparr> req_method = DELETE, req_url = FolderUrl target, req_headers = headers c,
       req_body = Some [(''user_id'', user_id c)] \<rparr>"

definition delete_folder :: "transport \<Rightarrow> pyval \<Rightarrow> client \<Rightarrow> outcome" where
  "delete_folder send fid c =
     (let target_folder_id = py_or fid (folder_id c) in
      if \<not> truthy target_folder_id then
        \<lparr> ret = PNone, after = c,
          trace = [Print ''TASK #4: DELETING FOLDER'',
                   Print ''ERROR: No folder ID available. Create a folder first.''] \<rparr>
      else
        catch [Print ''TASK #4: DELETING FOLDER''] (PBool False)
          (perform send (delete_request target_folder_id c)
             (\<lambda>r. delete_handle r target_folder_id c) c))"

section \<open>Reading a trace\<close>

text \<open>The HTTP calls issued, the number of calls of \<^verbatim>\<open>response.json()\<close>, and the
  last line printed.\<close>

fun http_calls :: "event list \<Rightarrow> request list" where
  "http_calls [] = []"
| "http_calls (HttpCall q # es) = q # http_calls es"
| "http_calls (e # es) = http_calls es"

definition decode_attempts :: "event list \<Rightarrow> nat" where
  "decode_attempts t = count_list t JsonDecode"

definition last_line :: "event list \<Rightarrow> event option" where
  "last_line t = (if t = [] then None else Some (last t))"

section \<open>Concrete inputs\<close>

text \<open>A client that has a stored id, a transport that answers every request with one
  response, and a transport that raises.\<close>

definition demo_client :: client where
  "demo_client = (init ''tok'' (PStr ''u1''))\<lparr>folder_id := PStr ''old''\<rparr>"

definition reply :: "int \<Rightarrow> string \<Rightarrow> exn + pyval \<Rightarrow> transport" where
  "reply s b j = (\<lambda>q. Inr \<lparr> status_code = s, content = b, text_of = b, json = j \<rparr>)"

definition refuse :: "exn \<Rightarrow> transport" where
  "refuse e = (\<lambda>q. Inl e)"

section \<open>Facts about the building blocks\<close>

lemma ret_catch_emit: "ret (catch b f (emit t a)) = ret (catch b f a)"
  by (cases a) simp_all

lemma after_catch_emit: "after (catch b f (emit t a)) = after (catch b f a)"
  by (cases a) simp_all

lemma delete_handle_result:
  "\<exists>t. delete_handle r target c = Returned (PBool True) (c\<lparr>folder_id := PNone\<rparr>) t
     \<or> delete_handle r target c = Returned (PBool False) c t"
  by (simp add: delete_handle_def split: prod.split)

text \<open>A delete either returns \<^verbatim>\<open>True\<close> and has cleared the id, or returns something
  else and has left the client alone.\<close>

lemma delete_folder_result:
  "(ret (delete_folder send fid c) = PBool True
      \<and> after (delete_folder send fid c) = c\<lparr>folder_id := PNone\<rparr>)
   \<or> (ret (delete_folder send fid c) \<noteq> PBool True \<and> after (delete_folder send fid c) = c)"
proof (cases "truthy (py_or fid (folder_id c))")
  case False
  then show ?thesis by (simp add: delete_folder_def Let_def)
next
  case True
  show ?thesis
  proof (cases "send (delete_request (py_or fid (folder_id c)) c)")
    case (Inl e)
    with True show ?thesis by (simp add: delete_folder_def perform_def Let_def)
  next
    case (Inr r)
    obtain t where
      "delete_handle r (py_or fid (folder_id c)) c = Returned (PBool True) (c\<lparr>folder_id := PNone\<rparr>) t
       \<or> delete_handle r (py_or fid (folder_id c)) c = Returned (PBool False) c t"
      using delete_handle_result by blast
    with True Inr show ?thesis by (auto simp add: delete_folder_def perform_def Let_def)
  qed
qed

text \<open>The only HTTP call in a trace is the one \<open>perform\<close> issues.\<close>

lemma http_calls_append: "http_calls (a @ b) = http_calls a @ http_calls b"
  by (induction a rule: http_calls.induct) simp_all

lemma http_calls_log_response: "http_calls (log_response r) = []"
  by (simp add: log_response_def split: sum.split)

lemma http_calls_show_errors: "http_calls (fst (show_errors xs)) = []"
  by (induction xs rule: show_errors.induct) (auto split: prod.split)

lemma http_calls_report_errors: "http_calls (fst (report_errors rd)) = []"
  by (simp add: report_errors_def http_calls_show_errors split: sum.split)

lemma events_of_emit: "events_of (emit t a) = t @ events_of a"
  by (cases a) simp_all

lemma http_calls_catch:
  "http_calls (trace (catch b f a)) = http_calls b @ http_calls (events_of a)"
  by (cases a) (simp_all add: http_calls_append except_line_def)

lemma http_calls_update_success: "http_calls (events_of (update_success v target c)) = []"
  by (cases v) simp_all

lemma http_calls_update_body: "http_calls (events_of (update_body v target c)) = []"
proof (cases v)
  case (PDict rd)
  obtain t e where re: "report_errors rd = (t, e)" by (cases "report_errors rd")
  with http_calls_report_errors [of rd] have "http_calls t = []" by simp
  with PDict re show ?thesis by (simp add: http_calls_update_success split: option.split)
qed simp_all

lemma http_calls_update_handle: "http_calls (events_of (update_handle r target c)) = []"
  by (simp add: update_handle_def events_of_emit http_calls_append http_calls_update_body
      split: sum.split)

lemma http_calls_delete_handle: "http_calls (events_of (delete_handle r target c)) = []"
  by (simp add: delete_handle_def delete_success_def delete_report_def http_calls_append
      http_calls_report_errors split: sum.split pyval.split prod.split)

lemma http_calls_perform:
  assumes "\<And>r. http_calls (events_of (handle r)) = []"
  shows "http_calls (events_of (perform send req handle c)) = [req]"
  using assms
  by (simp add: perform_def log_request_def events_of_emit http_calls_append
      http_calls_log_response Let_def split: sum.split)

text \<open>Counting the calls of \<^verbatim>\<open>response.json()\<close>; \<open>log_response\<close> makes one.\<close>

lemma decode_attempts_append: "decode_attempts (a @ b) = decode_attempts a + decode_attempts b"
  by (simp add: decode_attempts_def)

lemma decode_attempts_Nil: "decode_attempts [] = 0"
  by (simp add: decode_attempts_def)

lemma decode_attempts_Cons:
  "decode_attempts (e # es) = (if e = JsonDecode then 1 else 0) + decode_attempts es"
  by (simp add: decode_attempts_def)

lemma decode_attempts_log_response: "decode_attempts (log_response r) = 1"
  by (simp add: decode_attempts_def log_response_def split: sum.split)

text \<open>A rename hands the client back as it got it.\<close>

lemma after_catch: "after (catch b f a) = client_of a"
  by (cases a) simp_all

lemma client_of_emit: "client_of (emit t a) = client_of a"
  by (cases a) simp_all

lemma client_of_update_success: "client_of (update_success v target c) = c"
  by (cases v) simp_all

lemma client_of_update_body: "client_of (update_body v target c) = c"
  by (cases v) (simp_all add: client_of_update_success split: prod.split option.split)

lemma client_of_update_handle: "client_of (update_handle r target c) = c"
  by (simp add: update_handle_def client_of_emit client_of_update_body split: sum.split)

lemma client_of_perform:
  assumes "\<And>r. client_of (handle r) = c"
  shows "client_of (perform send req handle c) = c"
  using assms by (simp add: perform_def client_of_emit Let_def split: sum.split)

section \<open>The claims\<close>

text \<open>
  C2. A rename or a delete called with no explicit folder id (\<^verbatim>\<open>folder_id=None\<close>)
  while the stored id is absent returns \<^verbatim>\<open>None\<close>, the value of a failure, leaves the
  client as it was and issues no HTTP call: its trace has no call, and the whole outcome
  is the same whatever the transport is. The line it prints last names the missing id.
\<close>

theorem no_target_no_request:
  assumes "folder_id c = PNone"
  shows "ret (update_folder_name send new_name PNone c) = PNone
       \<and> after (update_folder_name send new_name PNone c) = c
       \<and> http_calls (trace (update_folder_name send new_name PNone c)) = []
       \<and> update_folder_name send new_name PNone c = update_folder_name send' new_name PNone c
       \<and> ret (delete_folder send PNone c) = PNone
       \<and> after (delete_folder send PNone c) = c
       \<and> http_calls (trace (delete_folder send PNone c)) = []
       \<and> delete_folder send PNone c = delete_folder send' PNone c
       \<and> last_line (trace (update_folder_name send new_name PNone c))
           = Some (Print ''ERROR: No folder ID available. Create a folder first.'')
       \<and> last_line (trace (delete_folder send PNone c))
           = Some (Print ''ERROR: No folder ID available. Create a folder first.'')"
  using assms
  by (simp add: update_folder_name_def delete_folder_def py_or_def last_line_def Let_def)

theorem no_target_no_request_witness:
  "folder_id (init ''tok'' (PStr ''u1'')) = PNone
   \<and> ret (update_folder_name (refuse (OtherException ''transport invoked'')) (PStr ''x'') PNone
            (init ''tok'' (PStr ''u1''))) = PNone
   \<and> http_calls (trace (delete_folder (refuse (OtherException ''transport invoked'')) PNone
            (init ''tok'' (PStr ''u1'')))) = []"
  using no_target_no_request [of "init ''tok'' (PStr ''u1'')"
      "refuse (OtherException ''transport invoked'')" "PStr ''x''"]
  by (simp add: init_def)

text \<open>
  C3. A delete that returns \<^verbatim>\<open>True\<close> has set the stored id to \<^verbatim>\<open>None\<close>; a rename or
  a delete called next with no explicit id then returns \<^verbatim>\<open>None\<close> from the local check,
  without an HTTP call, whatever the transport is.
\<close>

theorem successful_delete_clears_id:
  assumes "ret (delete_folder send fid c) = PBool True"
  shows "folder_id (after (delete_folder send fid c)) = PNone
       \<and> ret (update_folder_name send' new_name PNone (after (delete_folder send fid c))) = PNone
       \<and> http_calls (trace (update_folder_name send' new_name PNone (after (delete_folder send fid c)))) = []
       \<and> ret (delete_folder send' PNone (after (delete_folder send fid c))) = PNone
       \<and> http_calls (trace (delete_folder send' PNone (after (delete_folder send fid c)))) = []"
proof -
  from assms delete_folder_result [of send fid c]
  have cleared: "after (delete_folder send fid c) = c\<lparr>folder_id := PNone\<rparr>"
    by auto
  show ?thesis
    unfolding cleared
    by (simp add: update_folder_name_def delete_folder_def py_or_def Let_def)
qed

theorem successful_delete_clears_id_witness:
  "ret (delete_folder (reply 204 [] (Inl (OtherException ''no body''))) PNone demo_client) = PBool True
   \<and> folder_id (after (delete_folder (reply 204 [] (Inl (OtherException ''no body''))) PNone demo_client)) = PNone
   \<and> ret (update_folder_name (refuse (OtherException ''transport invoked'')) (PStr ''x'') PNone
        (after (delete_folder (reply 204 [] (Inl (OtherException ''no body''))) PNone demo_client))) = PNone"
proof -
  have h: "ret (delete_folder (reply 204 [] (Inl (OtherException ''no body''))) PNone demo_client) = PBool True"
    by (simp add: delete_folder_def perform_def delete_handle_def delete_success_def delete_request_def
        reply_def demo_client_def init_def py_or_def Let_def)
  from successful_delete_clears_id [OF h, of "refuse (OtherException ''transport invoked'')" "PStr ''x''"] h
  show ?thesis by simp
qed

text \<open>
  C9. A delete that does not return \<^verbatim>\<open>True\<close> (it returns \<^verbatim>\<open>False\<close> on
  \<^verbatim>\<open>success: false\<close>, on a status other than 200 and 204 and on an exception, and
  \<^verbatim>\<open>None\<close> when there is no target id) leaves the client, and so the stored id, as it
  was: only a delete that returns \<^verbatim>\<open>True\<close> assigns \<^verbatim>\<open>self.folder_id\<close>.
\<close>

theorem failed_delete_keeps_id:
  assumes "ret (delete_folder send fid c) \<noteq> PBool True"
  shows "after (delete_folder send fid c) = c"
  using assms delete_folder_result [of send fid c] by auto

theorem failed_delete_keeps_id_witness:
  "ret (delete_folder (reply 200 ''{..}'' (Inr (PDict [(''success'', PBool False)]))) PNone demo_client)
     \<noteq> PBool True
   \<and> after (delete_folder (reply 200 ''{..}'' (Inr (PDict [(''success'', PBool False)]))) PNone demo_client)
     = demo_client"
proof -
  have h: "ret (delete_folder (reply 200 ''{..}'' (Inr (PDict [(''success'', PBool False)]))) PNone demo_client)
             \<noteq> PBool True"
    by (simp add: delete_folder_def perform_def delete_handle_def delete_success_def delete_request_def
        reply_def demo_client_def init_def py_or_def dict_get_def Let_def)
  from failed_delete_keeps_id [OF h] h show ?thesis by simp
qed

text \<open>
  C4. For create and rename an accepted status (200 or 201 for create, 200 for rename) is
  necessary and not sufficient. When the response has another status, or its decoded
  body is an object that has no \<^verbatim>\<open>success\<close> field or has \<^verbatim>\<open>success: false\<close>, the
  operation returns \<^verbatim>\<open>None\<close>, never a record, and leaves the client as it was.
\<close>

theorem success_flag_required:
  "(send (create_request folder_name parent c) = Inr r
      \<and> (\<not> (status_code r = 200 \<or> status_code r = 201)
         \<or> (\<exists>rd. json r = Inr (PDict rd)
               \<and> (map_of rd ''success'' = None \<or> map_of rd ''success'' = Some (PBool False))))
    \<longrightarrow> ret (create_folder send folder_name parent c) = PNone
       \<and> after (create_folder send folder_name parent c) = c)
 \<and> (send (update_request new_name (py_or fid (folder_id c)) c) = Inr r
      \<and> (status_code r \<noteq> 200
         \<or> (\<exists>rd. json r = Inr (PDict rd)
               \<and> (map_of rd ''success'' = None \<or> map_of rd ''success'' = Some (PBool False))))
    \<longrightarrow> ret (update_folder_name send new_name fid c) = PNone
       \<and> after (update_folder_name send new_name fid c) = c)"
  by (auto simp add: create_folder_def update_folder_name_def perform_def create_handle_def
      update_handle_def dict_get_def Let_def split: prod.splits option.splits)

theorem success_flag_required_witness:
  "ret (create_folder (reply 201 ''{..}'' (Inr (PDict [(''data'', PDict [(''id'', PStr ''f1'')])])))
          (PStr ''docs'') PNone demo_client) = PNone
   \<and> after (create_folder (reply 201 ''{..}'' (Inr (PDict [(''data'', PDict [(''id'', PStr ''f1'')])])))
          (PStr ''docs'') PNone demo_client) = demo_client
   \<and> ret (update_folder_name (reply 200 ''{..}'' (Inr (PDict [(''success'', PBool False)])))
          (PStr ''docs'') PNone demo_client) = PNone"
  using success_flag_required
    [where send = "reply 201 ''{..}'' (Inr (PDict [(''data'', PDict [(''id'', PStr ''f1'')])]))"
       and folder_name = "PStr ''docs''" and parent = PNone and c = demo_client
       and r = "\<lparr> status_code = 201, content = ''{..}'', text_of = ''{..}'',
           json = Inr (PDict [(''data'', PDict [(''id'', PStr ''f1'')])]) \<rparr>"]
    success_flag_required
    [where send = "reply 200 ''{..}'' (Inr (PDict [(''success'', PBool False)]))"
       and new_name = "PStr ''docs''" and fid = PNone and c = demo_client
       and r = "\<lparr> status_code = 200, content = ''{..}'', text_of = ''{..}'',
           json = Inr (PDict [(''success'', PBool False)]) \<rparr>"]
  by (simp add: reply_def)

text \<open>
  C1, as the code has it. When the response to a create has status 200 or 201, its
  decoded body is an object with \<^verbatim>\<open>success: true\<close>, and the \<^verbatim>\<open>data\<close> field of the body
  is absent (then the record is the empty dict) or is itself an object, the client
  returns that record and stores the record's \<^verbatim>\<open>id\<close> in \<^verbatim>\<open>self.folder_id\<close>, whatever
  was stored before: the stored id is the id of the record returned.
\<close>

theorem create_stores_id:
  assumes "send (create_request folder_name parent c) = Inr r"
      and "status_code r = 200 \<or> status_code r = 201"
      and "json r = Inr (PDict rd)"
      and "map_of rd ''success'' = Some (PBool True)"
      and "dict_get rd ''data'' (PDict []) = PDict fd"
  shows "ret (create_folder send folder_name parent c) = PDict fd
       \<and> folder_id (after (create_folder send folder_name parent c)) = dict_get fd ''id'' PNone"
  using assms
  by (auto simp add: create_folder_def perform_def create_handle_def Let_def)
     (simp_all add: dict_get_def)

theorem create_stores_id_witness:
  "ret (create_folder (reply 201 ''{..}''
          (Inr (PDict [(''success'', PBool True), (''data'', PDict [(''id'', PStr ''f1''), (''title'', PStr ''docs'')])])))
          (PStr ''docs'') PNone demo_client) = PDict [(''id'', PStr ''f1''), (''title'', PStr ''docs'')]
   \<and> folder_id (after (create_folder (reply 201 ''{..}''
          (Inr (PDict [(''success'', PBool True), (''data'', PDict [(''id'', PStr ''f1''), (''title'', PStr ''docs'')])])))
          (PStr ''docs'') PNone demo_client)) = PStr ''f1''
   \<and> folder_id demo_client = PStr ''old''"
  using create_stores_id
    [where send = "reply 201 ''{..}''
          (Inr (PDict [(''success'', PBool True), (''data'', PDict [(''id'', PStr ''f1''), (''title'', PStr ''docs'')])]))"
       and folder_name = "PStr ''docs''" and parent = PNone and c = demo_client
       and r = "\<lparr> status_code = 201, content = ''{..}'', text_of = ''{..}'',
           json = Inr (PDict [(''success'', PBool True), (''data'', PDict [(''id'', PStr ''f1''), (''title'', PStr ''docs'')])]) \<rparr>"
       and rd = "[(''success'', PBool True), (''data'', PDict [(''id'', PStr ''f1''), (''title'', PStr ''docs'')])]"
       and fd = "[(''id'', PStr ''f1''), (''title'', PStr ''docs'')]"]
  by (simp add: reply_def demo_client_def dict_get_def)

text \<open>
  C1 as stated does not hold for every body with \<^verbatim>\<open>success: true\<close>: when \<^verbatim>\<open>data\<close> is
  present and is not an object (here \<^verbatim>\<open>null\<close>), \<^verbatim>\<open>folder_data.get('id')\<close> raises, the
  \<^verbatim>\<open>except Exception\<close> clause returns \<^verbatim>\<open>None\<close>, and the stored id keeps its old value.
\<close>

theorem create_null_data_counterexample:
  "ret (create_folder (reply 201 ''{..}'' (Inr (PDict [(''success'', PBool True), (''data'', PNone)])))
          (PStr ''docs'') PNone demo_client) = PNone
   \<and> folder_id (after (create_folder (reply 201 ''{..}'' (Inr (PDict [(''success'', PBool True), (''data'', PNone)])))
          (PStr ''docs'') PNone demo_client)) = PStr ''old''"
  by (simp add: create_folder_def perform_def create_handle_def create_request_def reply_def
      demo_client_def init_def dict_get_def Let_def)

text \<open>
  C10. When the response to a create has status 200 or 201 and \<^verbatim>\<open>success: true\<close>, and
  its \<^verbatim>\<open>data\<close> is absent or is an object without an \<^verbatim>\<open>id\<close> field, the client still
  returns the record (empty when \<^verbatim>\<open>data\<close> is absent) and sets the stored id to
  \<^verbatim>\<open>None\<close>, also when an id was stored before.
\<close>

theorem create_without_id:
  assumes "send (create_request folder_name parent c) = Inr r"
      and "status_code r = 200 \<or> status_code r = 201"
      and "json r = Inr (PDict rd)"
      and "map_of rd ''success'' = Some (PBool True)"
      and "map_of rd ''data'' = None \<and> fd = [] \<or> map_of rd ''data'' = Some (PDict fd)"
      and "map_of fd ''id'' = None"
  shows "ret (create_folder send folder_name parent c) = PDict fd
       \<and> folder_id (after (create_folder send folder_name parent c)) = PNone"
  using assms
  by (auto simp add: create_folder_def perform_def create_handle_def dict_get_def Let_def)

theorem create_without_id_witness:
  "ret (create_folder (reply 201 ''{..}'' (Inr (PDict [(''success'', PBool True)])))
          (PStr ''docs'') PNone demo_client) = PDict []
   \<and> folder_id (after (create_folder (reply 201 ''{..}'' (Inr (PDict [(''success'', PBool True)])))
          (PStr ''docs'') PNone demo_client)) = PNone
   \<and> folder_id demo_client = PStr ''old''"
  using create_without_id
    [where send = "reply 201 ''{..}'' (Inr (PDict [(''success'', PBool True)]))"
       and folder_name = "PStr ''docs''" and parent = PNone and c = demo_client
       and r = "\<lparr> status_code = 201, content = ''{..}'', text_of = ''{..}'',
           json = Inr (PDict [(''success'', PBool True)]) \<rparr>"
       and rd = "[(''success'', PBool True)]" and fd = "[]"]
  by (simp add: reply_def demo_client_def)

text \<open>
  C8, as the code has it. The target of a rename or a delete is
  \<^verbatim>\<open>folder_id or self.folder_id\<close>: an explicit argument that is truthy (a non-empty
  string) is the target of the one request issued, whatever is stored; the stored id is
  the target when the argument is \<^verbatim>\<open>None\<close> or any other falsy value, such as the empty
  string.
\<close>

theorem target_resolution:
  "(truthy fid \<longrightarrow>
      http_calls (trace (update_folder_name send new_name fid c)) = [update_request new_name fid c]
    \<and> http_calls (trace (delete_folder send fid c)) = [delete_request fid c])
 \<and> (\<not> truthy fid \<and> truthy (folder_id c) \<longrightarrow>
      http_calls (trace (update_folder_name send new_name fid c)) = [update_request new_name (folder_id c) c]
    \<and> http_calls (trace (delete_folder send fid c)) = [delete_request (folder_id c) c])"
  by (simp add: update_folder_name_def delete_folder_def py_or_def Let_def http_calls_catch
      http_calls_perform http_calls_update_handle http_calls_delete_handle)

theorem target_resolution_witness:
  "map req_url (http_calls (trace (update_folder_name (refuse (RequestException ''down'')) (PStr ''docs'')
      (PStr ''given'') demo_client))) = [FolderUrl (PStr ''given'')]
   \<and> map req_url (http_calls (trace (delete_folder (refuse (RequestException ''down'')) PNone
      demo_client))) = [FolderUrl (PStr ''old'')]"
  using target_resolution [where fid = "PStr ''given''" and c = demo_client and new_name = "PStr ''docs''"
      and send = "refuse (RequestException ''down'')"]
    target_resolution [where fid = PNone and c = demo_client and send = "refuse (RequestException ''down'')"]
  by (simp add: demo_client_def update_request_def delete_request_def)

text \<open>
  C8 as stated says that the stored id is used only when no argument is supplied. An
  explicitly supplied empty string does not take precedence: the request goes to the
  stored id.
\<close>

theorem empty_id_argument_counterexample:
  "map req_url (http_calls (trace (update_folder_name (refuse (RequestException ''down'')) (PStr ''docs'')
      (PStr '''') demo_client))) = [FolderUrl (PStr ''old'')]
   \<and> map req_url (http_calls (trace (delete_folder (refuse (RequestException ''down'')) (PStr '''')
      demo_client))) = [FolderUrl (PStr ''old'')]"
  by (simp add: update_folder_name_def delete_folder_def perform_def update_request_def delete_request_def
      refuse_def demo_client_def init_def py_or_def log_request_def except_line_def Let_def)

text \<open>
  C5, as the code has it. For a delete whose response has status 200 or 204:
  an empty body gives \<^verbatim>\<open>True\<close> and clears the stored id, and the classification of
  lines 270 to 288 does not decode it, so that the only call of \<^verbatim>\<open>response.json()\<close>
  in the whole delete is the one \<open>log_response\<close> makes for the console, whose failure
  it swallows; a non-empty body that decodes to an object without a \<^verbatim>\<open>success\<close> field
  gives \<^verbatim>\<open>True\<close>; and the delete returns \<^verbatim>\<open>False\<close> exactly when the body is not
  empty and decodes to an object whose \<^verbatim>\<open>success\<close> value is falsy (\<^verbatim>\<open>false\<close>, and also
  \<^verbatim>\<open>null\<close>, \<^verbatim>\<open>0\<close>, an empty string, list or object).
\<close>

theorem delete_body_rules:
  assumes "send (delete_request (py_or fid (folder_id c)) c) = Inr r"
      and "truthy (py_or fid (folder_id c))"
      and "status_code r = 200 \<or> status_code r = 204"
  shows "(content r = [] \<longrightarrow>
            ret (delete_folder send fid c) = PBool True
          \<and> folder_id (after (delete_folder send fid c)) = PNone
          \<and> snd (delete_success r) = []
          \<and> decode_attempts (trace (delete_folder send fid c)) = decode_attempts (log_response r)
          \<and> decode_attempts (log_response r) = 1)
       \<and> (content r \<noteq> [] \<and> (\<exists>rd. json r = Inr (PDict rd) \<and> map_of rd ''success'' = None) \<longrightarrow>
            ret (delete_folder send fid c) = PBool True
          \<and> folder_id (after (delete_folder send fid c)) = PNone)
       \<and> (ret (delete_folder send fid c) = PBool False \<longleftrightarrow>
            content r \<noteq> []
          \<and> (\<exists>rd s. json r = Inr (PDict rd) \<and> map_of rd ''success'' = Some s \<and> \<not> truthy s))"
proof -
  have out: "delete_folder send fid c =
      catch [Print ''TASK #4: DELETING FOLDER''] (PBool False)
        (emit (log_request DELETE (FolderUrl (py_or fid (folder_id c))) (headers c) (Some [(''user_id'', user_id c)])
               @ [HttpCall (delete_request (py_or fid (folder_id c)) c)] @ log_response r)
           (delete_handle r (py_or fid (folder_id c)) c))"
    using assms(1,2) by (simp add: delete_folder_def perform_def delete_request_def Let_def)
  have empty: "content r = [] \<Longrightarrow>
      delete_handle r (py_or fid (folder_id c)) c =
        Returned (PBool True) (c\<lparr>folder_id := PNone\<rparr>)
          [Print ''SUCCESS: Folder deleted successfully!'',
           PrintVal ''  Deleted Folder ID: '' (py_or fid (folder_id c))]"
    using assms(3) by (auto simp add: delete_handle_def delete_success_def)
  have a: "content r = [] \<longrightarrow>
            ret (delete_folder send fid c) = PBool True
          \<and> folder_id (after (delete_folder send fid c)) = PNone
          \<and> snd (delete_success r) = []
          \<and> decode_attempts (trace (delete_folder send fid c)) = decode_attempts (log_response r)
          \<and> decode_attempts (log_response r) = 1"
    by (simp add: out empty decode_attempts_append decode_attempts_log_response delete_success_def
        decode_attempts_Nil decode_attempts_Cons log_request_def)
  have b: "content r \<noteq> [] \<and> (\<exists>rd. json r = Inr (PDict rd) \<and> map_of rd ''success'' = None) \<longrightarrow>
            ret (delete_folder send fid c) = PBool True
          \<and> folder_id (after (delete_folder send fid c)) = PNone"
    using assms(3)
    by (auto simp add: out ret_catch_emit after_catch_emit delete_handle_def delete_success_def dict_get_def)
  have c: "ret (delete_folder send fid c) = PBool False \<longleftrightarrow>
            content r \<noteq> []
          \<and> (\<exists>rd s. json r = Inr (PDict rd) \<and> map_of rd ''success'' = Some s \<and> \<not> truthy s)"
  proof (cases "content r = []")
    case True
    with a show ?thesis by simp
  next
    case False
    show ?thesis
    proof (cases "json r")
      case (Inl e)
      with False assms(3) show ?thesis
        by (auto simp add: out ret_catch_emit delete_handle_def delete_success_def)
    next
      case (Inr v)
      show ?thesis
      proof (cases v)
        case (PDict rd)
        with False Inr assms(3) show ?thesis
          by (cases "map_of rd ''success''")
             (auto simp add: out ret_catch_emit delete_handle_def delete_success_def dict_get_def)
      qed (use False Inr assms(3) in \<open>auto simp add: out ret_catch_emit delete_handle_def delete_success_def\<close>)
    qed
  qed
  from a b c show ?thesis by blast
qed

theorem delete_body_rules_witness:
  "ret (delete_folder (reply 204 [] (Inl (OtherException ''Expecting value''))) PNone demo_client) = PBool True
   \<and> folder_id (after (delete_folder (reply 204 [] (Inl (OtherException ''Expecting value''))) PNone demo_client)) = PNone
   \<and> decode_attempts (trace (delete_folder (reply 204 [] (Inl (OtherException ''Expecting value''))) PNone demo_client)) = 1
   \<and> ret (delete_folder (reply 200 ''{..}'' (Inr (PDict [(''data'', PNone)]))) PNone demo_client) = PBool True
   \<and> ret (delete_folder (reply 200 ''{..}'' (Inr (PDict [(''success'', PBool False)]))) PNone demo_client) = PBool False"
  using
    delete_body_rules
      [where send = "reply 204 [] (Inl (OtherException ''Expecting value''))" and fid = PNone
         and c = demo_client
         and r = "\<lparr> status_code = 204, content = [], text_of = [],
                    json = Inl (OtherException ''Expecting value'') \<rparr>"]
    delete_body_rules
      [where send = "reply 200 ''{..}'' (Inr (PDict [(''data'', PNone)]))" and fid = PNone
         and c = demo_client
         and r = "\<lparr> status_code = 200, content = ''{..}'', text_of = ''{..}'',
                    json = Inr (PDict [(''data'', PNone)]) \<rparr>"]
    delete_body_rules
      [where send = "reply 200 ''{..}'' (Inr (PDict [(''success'', PBool False)]))" and fid = PNone
         and c = demo_client
         and r = "\<lparr> status_code = 200, content = ''{..}'', text_of = ''{..}'',
                    json = Inr (PDict [(''success'', PBool False)]) \<rparr>"]
  by (simp add: reply_def py_or_def demo_client_def)

text \<open>
  C5 as stated fails in two places. A delete answered by 204 with an empty body does
  call \<^verbatim>\<open>response.json()\<close> on it, once, in \<open>log_response\<close>; and a body
  \<^verbatim>\<open>{"success": null}\<close>, which is not an explicit \<^verbatim>\<open>success: false\<close>, makes the delete
  return \<^verbatim>\<open>False\<close>.
\<close>

theorem delete_decodes_and_falsy_flag_counterexample:
  "decode_attempts (trace (delete_folder (reply 204 [] (Inl (OtherException ''Expecting value''))) PNone demo_client)) = 1
   \<and> ret (delete_folder (reply 200 ''{..}'' (Inr (PDict [(''success'', PNone)]))) PNone demo_client) = PBool False"
  by (simp add: delete_folder_def perform_def delete_handle_def delete_success_def delete_report_def
      delete_request_def report_errors_def reply_def demo_client_def init_def py_or_def dict_get_def
      log_request_def log_response_def decode_attempts_def Let_def)

text \<open>
  C7, as the code has it. A rename never assigns \<^verbatim>\<open>self.folder_id\<close>: whatever the
  transport does and whatever comes back, the client after the call is the client
  before it. In particular, when the response has status 200 and the body
  \<^verbatim>\<open>{"success": false, "errors": [{"description": "dup"}]}\<close>, the rename returns
  \<^verbatim>\<open>None\<close>, a failure that holds no string; the string \<^verbatim>\<open>dup\<close> is only printed, in
  the last line of the call, \<^verbatim>\<open>  Error: dup\<close>; and the stored id is unchanged.
\<close>

theorem rename_keeps_id:
  "after (update_folder_name send new_name fid c) = c
   \<and> (send (update_request new_name (py_or fid (folder_id c)) c) = Inr r
        \<and> truthy (py_or fid (folder_id c))
        \<and> status_code r = 200
        \<and> json r = Inr (PDict [(''success'', PBool False),
                                (''errors'', PList [PDict [(''description'', PStr ''dup'')]])])
      \<longrightarrow> ret (update_folder_name send new_name fid c) = PNone
        \<and> last_line (trace (update_folder_name send new_name fid c))
            = Some (PrintVal ''  Error: '' (PStr ''dup''))
        \<and> folder_id (after (update_folder_name send new_name fid c)) = folder_id c)"
proof -
  have frame: "after (update_folder_name send new_name fid c) = c"
    by (simp add: update_folder_name_def Let_def after_catch client_of_perform client_of_update_handle)
  have dup: "update_handle r target c =
      Returned PNone c [JsonDecode, Print ''ERROR: API returned success=false'',
                        PrintVal ''  Error: '' (PStr ''dup'')]"
    if "status_code r = 200"
      and "json r = Inr (PDict [(''success'', PBool False),
                                (''errors'', PList [PDict [(''description'', PStr ''dup'')]])])"
    for target
    using that by (simp add: update_handle_def report_errors_def dict_get_def)
  show ?thesis
    by (simp add: frame)
       (simp add: update_folder_name_def perform_def Let_def dup last_line_def)
qed

theorem rename_keeps_id_witness:
  "ret (update_folder_name
          (reply 200 ''{..}'' (Inr (PDict [(''success'', PBool False),
                                (''errors'', PList [PDict [(''description'', PStr ''dup'')]])])))
          (PStr ''docs'') PNone demo_client) = PNone
   \<and> last_line (trace (update_folder_name
          (reply 200 ''{..}'' (Inr (PDict [(''success'', PBool False),
                                (''errors'', PList [PDict [(''description'', PStr ''dup'')]])])))
          (PStr ''docs'') PNone demo_client)) = Some (PrintVal ''  Error: '' (PStr ''dup''))
   \<and> folder_id (after (update_folder_name
          (reply 200 ''{..}'' (Inr (PDict [(''success'', PBool False),
                                (''errors'', PList [PDict [(''description'', PStr ''dup'')]])])))
          (PStr ''docs'') PNone demo_client)) = PStr ''old''"
  using rename_keeps_id
    [where send = "reply 200 ''{..}'' (Inr (PDict [(''success'', PBool False),
                                (''errors'', PList [PDict [(''description'', PStr ''dup'')]])]))"
       and new_name = "PStr ''docs''" and fid = PNone and c = demo_client
       and r = "\<lparr> status_code = 200, content = ''{..}'', text_of = ''{..}'',
                  json = Inr (PDict [(''success'', PBool False),
                                (''errors'', PList [PDict [(''description'', PStr ''dup'')]])]) \<rparr>"]
  by (simp add: reply_def py_or_def demo_client_def)

text \<open>
  C7 as stated has the failure carry the string \<^verbatim>\<open>dup\<close>. The value a failed rename
  returns is the bare \<^verbatim>\<open>None\<close>: it is the same value whether the error description
  is \<^verbatim>\<open>dup\<close> or \<^verbatim>\<open>quota\<close>, so a caller that inspects the result finds no string in
  it.
\<close>

theorem rename_returns_bare_none_counterexample:
  "ret (update_folder_name
          (reply 200 ''{..}'' (Inr (PDict [(''success'', PBool False),
                                (''errors'', PList [PDict [(''description'', PStr ''dup'')]])])))
          (PStr ''docs'') PNone demo_client) = PNone
   \<and> ret (update_folder_name
          (reply 200 ''{..}'' (Inr (PDict [(''success'', PBool False),
                                (''errors'', PList [PDict [(''description'', PStr ''quota'')]])])))
          (PStr ''docs'') PNone demo_client) = PNone"
  by (simp add: update_folder_name_def perform_def update_handle_def update_request_def
      report_errors_def reply_def demo_client_def init_def py_or_def dict_get_def Let_def)

text \<open>
  C6, as the code has it. A listing whose request raises, whose response has a status
  other than 200, or whose 200 response cannot be decoded returns \<^verbatim>\<open>None\<close> and leaves
  the client as it was; no exception leaves the call. The value returned holds no
  reason: the reason is the last line printed. That line is the fixed
  \<^verbatim>\<open>ERROR: Failed to fetch folders\<close> for a status other than 200; for an exception it is
  \<^verbatim>\<open>REQUEST ERROR:\<close> with the exception's text when the exception is a
  \<open>RequestException\<close>, and \<^verbatim>\<open>UNEXPECTED ERROR:\<close> with its text otherwise, whether the
  exception came from the request or from \<^verbatim>\<open>response.json()\<close>.
\<close>

theorem list_failures:
  "(send (list_request c) = Inl e \<longrightarrow>
      ret (get_all_folders send c) = PNone
    \<and> after (get_all_folders send c) = c
    \<and> last_line (trace (get_all_folders send c))
        = Some (PrintExn (if is_request_exception e then ''REQUEST ERROR: '' else ''UNEXPECTED ERROR: '') e))
 \<and> (send (list_request c) = Inr r \<and> status_code r \<noteq> 200 \<longrightarrow>
      ret (get_all_folders send c) = PNone
    \<and> after (get_all_folders send c) = c
    \<and> last_line (trace (get_all_folders send c)) = Some (Print ''ERROR: Failed to fetch folders''))
 \<and> (send (list_request c) = Inr r \<and> status_code r = 200 \<and> json r = Inl e \<longrightarrow>
      ret (get_all_folders send c) = PNone
    \<and> after (get_all_folders send c) = c
    \<and> last_line (trace (get_all_folders send c))
        = Some (PrintExn (if is_request_exception e then ''REQUEST ERROR: '' else ''UNEXPECTED ERROR: '') e))"
  by (simp add: get_all_folders_def perform_def list_handle_def except_line_def last_line_def Let_def)

theorem list_failures_witness:
  "ret (get_all_folders (refuse (RequestException ''connection refused'')) demo_client) = PNone
   \<and> last_line (trace (get_all_folders (refuse (RequestException ''connection refused'')) demo_client))
       = Some (PrintExn ''REQUEST ERROR: '' (RequestException ''connection refused''))
   \<and> ret (get_all_folders (reply 500 ''oops'' (Inl (OtherException ''Expecting value''))) demo_client) = PNone
   \<and> last_line (trace (get_all_folders (reply 500 ''oops'' (Inl (OtherException ''Expecting value''))) demo_client))
       = Some (Print ''ERROR: Failed to fetch folders'')
   \<and> ret (get_all_folders (reply 200 ''oops'' (Inl (OtherException ''Expecting value''))) demo_client) = PNone
   \<and> last_line (trace (get_all_folders (reply 200 ''oops'' (Inl (OtherException ''Expecting value''))) demo_client))
       = Some (PrintExn ''UNEXPECTED ERROR: '' (OtherException ''Expecting value''))"
  using
    list_failures [where send = "refuse (RequestException ''connection refused'')" and c = demo_client
      and e = "RequestException ''connection refused''"]
    list_failures [where send = "reply 500 ''oops'' (Inl (OtherException ''Expecting value''))"
      and c = demo_client
      and r = "\<lparr> status_code = 500, content = ''oops'', text_of = ''oops'',
                 json = Inl (OtherException ''Expecting value'') \<rparr>"]
    list_failures [where send = "reply 200 ''oops'' (Inl (OtherException ''Expecting value''))"
      and c = demo_client and e = "OtherException ''Expecting value''"
      and r = "\<lparr> status_code = 200, content = ''oops'', text_of = ''oops'',
                 json = Inl (OtherException ''Expecting value'') \<rparr>"]
  by (simp add: reply_def refuse_def)

text \<open>
  C6 as stated asks for a reason that tells a decode failure from a connection failure.
  The code has no clause of its own for either: when \<^verbatim>\<open>response.json()\<close> raises a
  \<open>RequestException\<close> (as requests 2.27 and later does) with the text a failed
  connection has, both calls return \<^verbatim>\<open>None\<close> and both print the same last line. A
  rejected request returns the same \<^verbatim>\<open>None\<close> too.
\<close>

theorem same_reason_counterexample:
  "ret (get_all_folders (refuse (RequestException ''failed'')) demo_client) = PNone
   \<and> ret (get_all_folders (reply 200 ''oops'' (Inl (RequestException ''failed''))) demo_client) = PNone
   \<and> ret (get_all_folders (reply 500 ''oops'' (Inl (RequestException ''failed''))) demo_client) = PNone
   \<and> last_line (trace (get_all_folders (refuse (RequestException ''failed'')) demo_client))
       = Some (PrintExn ''REQUEST ERROR: '' (RequestException ''failed''))
   \<and> last_line (trace (get_all_folders (reply 200 ''oops'' (Inl (RequestException ''failed''))) demo_client))
       = Some (PrintExn ''REQUEST ERROR: '' (RequestException ''failed''))"
  by (simp add: get_all_folders_def perform_def list_handle_def list_request_def except_line_def
      last_line_def reply_def refuse_def Let_def)

end
